theory Spec2Isabelle
  imports Main
begin

section \<open>Data model of \<open>workers-site/index.js\<close>\<close>

text \<open>
  The worker answers one \<open>fetch\<close> event with one response. Everything it does not
  compute itself belongs to the platform or to the imported asset handler, and enters
  the model as data or as a parameter:
  \<^item> a URL is given in parsed form (what \<open>new URL(s)\<close> exposes): its origin, path, query
    and fragment; its string form \<open>href\<close> is their concatenation. The URLs of a fetch
    event are ASCII and carry no credentials;
  \<^item> a header list is a list of name/value pairs in the order of insertion, and
    \<open>headers.append\<close> adds a pair at the end;
  \<^item> a thrown value is an object with an optional \<open>message\<close> and a string form.
\<close>

record URL =
  origin :: string
  pathname :: string
  search :: string
  hash :: string

definition href :: "URL \<Rightarrow> string" where
  "href u = origin u @ pathname u @ search u @ hash u"

type_synonym header_list = "(string \<times> string) list"

record request =
  url :: URL
  req_method :: string
  req_headers :: header_list

record event =
  request :: request

record response =
  status :: nat
  headers :: header_list
  body :: string

record response_init =
  init_status :: "nat option"
  init_headers :: "header_list option"

record js_error =
  message :: "string option"
  toString :: string

record cache_control =
  bypassCache :: bool

record options =
  options_mapRequestToAsset :: "request \<Rightarrow> request"
  options_cacheControl :: "cache_control option"

text \<open>
  The environment of the worker: the two imports from \<open>@cloudflare/kv-asset-handler\<close>
  (line 1) and the one platform behaviour the source relies on without fixing it, the
  own enumerable properties of a \<open>Response\<close> object (what \<open>{...notFoundResponse}\<close>
  copies on line 91). \<open>getAssetFromKV\<close> either throws (\<open>Inl\<close>) or resolves to a response
  whose headers are mutable.
\<close>

record env =
  getAssetFromKV :: "event \<Rightarrow> options \<Rightarrow> js_error + response"
  mapRequestToAsset :: "request \<Rightarrow> request"
  own_enumerable :: "response \<Rightarrow> response_init"

section \<open>Regular expressions\<close>

text \<open>
  The fragment of JavaScript regular expressions that line 28 uses: single characters,
  the class \<open>\S\<close>, alternation, concatenation and repetition. \<open>regex_test\<close> is
  \<open>RegExp.prototype.test\<close> for a pattern without anchors and flags: some substring of the
  subject matches.
\<close>

datatype regexp =
  Never
  | Empty
  | Lit char
  | NotSpace
  | Or regexp regexp
  | Then regexp regexp
  | Many regexp

definition OneOrMore :: "regexp \<Rightarrow> regexp" where
  "OneOrMore r = Then r (Many r)"

fun word :: "string \<Rightarrow> regexp" where
  "word [] = Empty"
| "word (c # cs) = Then (Lit c) (word cs)"

text \<open>The ASCII characters that \<open>\s\<close> matches: tab, line feed, vertical tab, form feed,
  carriage return and space.\<close>

definition is_space :: "char \<Rightarrow> bool" where
  "is_space c = (c \<in> {CHR 0x09, CHR 0x0A, CHR 0x0B, CHR 0x0C, CHR 0x0D, CHR 0x20})"

fun accepts_empty :: "regexp \<Rightarrow> bool" where
  "accepts_empty Never = False"
| "accepts_empty Empty = True"
| "accepts_empty (Lit c) = False"
| "accepts_empty NotSpace = False"
| "accepts_empty (Or r s) = (accepts_empty r \<or> accepts_empty s)"
| "accepts_empty (Then r s) = (accepts_empty r \<and> accepts_empty s)"
| "accepts_empty (Many r) = True"

text \<open>\<open>after c r\<close> matches what \<open>r\<close> matches after a first character \<open>c\<close>.\<close>

fun after :: "char \<Rightarrow> regexp \<Rightarrow> regexp" where
  "after c Never = Never"
| "after c Empty = Never"
| "after c (Lit d) = (if c = d then Empty else Never)"
| "after c NotSpace = (if is_space c then Never else Empty)"
| "after c (Or r s) = Or (after c r) (after c s)"
| "after c (Then r s) =
     (if accepts_empty r then Or (Then (after c r) s) (after c s) else Then (after c r) s)"
| "after c (Many r) = Then (after c r) (Many r)"

text \<open>Some prefix of the subject matches.\<close>

fun prefix_match :: "regexp \<Rightarrow> string \<Rightarrow> bool" where
  "prefix_match r [] = accepts_empty r"
| "prefix_match r (c # cs) = (accepts_empty r \<or> prefix_match (after c r) cs)"

text \<open>Some substring of the subject matches: the search starts at every position.\<close>

fun regex_test :: "regexp \<Rightarrow> string \<Rightarrow> bool" where
  "regex_test r [] = accepts_empty r"
| "regex_test r (c # cs) = (prefix_match r (c # cs) \<or> regex_test r cs)"

text \<open>
  The meaning of a pattern as a set of strings, against which the matcher above is
  verified below.
\<close>

inductive_set repeats :: "string set \<Rightarrow> string set" for A :: "string set" where
  none: "[] \<in> repeats A"
| more: "u \<in> A \<Longrightarrow> v \<in> repeats A \<Longrightarrow> u @ v \<in> repeats A"

fun lang :: "regexp \<Rightarrow> string set" where
  "lang Never = {}"
| "lang Empty = {[]}"
| "lang (Lit c) = {[c]}"
| "lang NotSpace = {[c] | c. \<not> is_space c}"
| "lang (Or r s) = lang r \<union> lang s"
| "lang (Then r s) = {u @ v | u v. u \<in> lang r \<and> v \<in> lang s}"
| "lang (Many r) = repeats (lang r)"

section \<open>The worker\<close>

text \<open>Line 10: \<open>const DEBUG = false\<close>.\<close>

definition DEBUG :: bool where
  "DEBUG = False"

text \<open>Line 28: \<open>/\S+\/(js|css|img)\/\S+/\<close>.\<close>

definition regex :: regexp where
  "regex =
     Then (OneOrMore NotSpace)
       (Then (Lit CHR ''/'')
          (Then (Or (word ''js'') (Or (word ''css'') (word ''img'')))
             (Then (Lit CHR ''/'') (OneOrMore NotSpace))))"

definition headers_append :: "header_list \<Rightarrow> string \<Rightarrow> string \<Rightarrow> header_list" where
  "headers_append hs name v = hs @ [(name, v)]"

text \<open>
  Lines 27 to 46. \<open>requestURL\<close> is the string the regular expression is tested on: the
  caller passes a URL object, which \<open>test\<close> converts to its \<open>href\<close>. The response is
  mutated in place; the model returns it.
\<close>

definition addCustomHeaders :: "string \<Rightarrow> response \<Rightarrow> response" where
  "addCustomHeaders requestURL response =
     (let hs = headers response;
          hs = (if regex_test regex requestURL
                then headers_append hs ''Cache-Control'' ''public, max-age=31536000, immutable''
                else headers_append hs ''Cache-Control'' ''must-revalidate'');
          hs = headers_append hs ''X-Frame-Options'' ''DENY'';
          hs = headers_append hs ''X-Content-Type-Options'' ''nosniff'';
          hs = headers_append hs ''X-XSS-Protection'' ''1; mode=block'';
          hs = headers_append hs ''Referrer-Policy'' ''no-referrer''
      in response\<lparr>headers := hs\<rparr>)"

text \<open>\<open>e.message || e.toString()\<close> (lines 18 and 95): the message when it is a non-empty
  string, the string form otherwise.\<close>

definition error_text :: "js_error \<Rightarrow> string" where
  "error_text e =
     (case message e of
        Some m \<Rightarrow> if m \<noteq> [] then m else toString e
      | None \<Rightarrow> toString e)"

text \<open>
  \<open>new Response(text, {status: n})\<close> with a string body (lines 18, 23 and 95): the
  constructor gives a string body the content type of plain text.
\<close>

definition new_Response_text :: "string \<Rightarrow> nat \<Rightarrow> response" where
  "new_Response_text text n =
     \<lparr>status = n, headers = [(''Content-Type'', ''text/plain;charset=UTF-8'')], body = text\<rparr>"

text \<open>\<open>new Response(stream, init)\<close> with the body of another response (line 91): no
  content type is added; a missing status is 200 and missing headers are empty.\<close>

definition new_Response_stream :: "string \<Rightarrow> response_init \<Rightarrow> response" where
  "new_Response_stream content init =
     \<lparr>status = (case init_status init of Some n \<Rightarrow> n | None \<Rightarrow> 200),
      headers = (case init_headers init of Some hs \<Rightarrow> hs | None \<Rightarrow> []),
      body = content\<rparr>"

text \<open>The URL that the string \<open>`${origin}${path}`\<close> parses to, for a path without query
  and fragment (lines 66 and 88).\<close>

definition root_url :: "string \<Rightarrow> string \<Rightarrow> URL" where
  "root_url org path = \<lparr>origin = org, pathname = path, search = [], hash = []\<rparr>"

text \<open>\<open>new Request(u, req)\<close>: the request \<open>req\<close> with the URL replaced.\<close>

definition new_Request :: "URL \<Rightarrow> request \<Rightarrow> request" where
  "new_Request u req = req\<lparr>url := u\<rparr>"

text \<open>\<open>s.endsWith(t)\<close>.\<close>

definition endsWith :: "string \<Rightarrow> string \<Rightarrow> bool" where
  "endsWith s t = (length t \<le> length s \<and> drop (length s - length t) s = t)"

text \<open>Lines 52 to 71: the function stored in \<open>options.mapRequestToAsset\<close>.\<close>

definition handleEvent_mapRequestToAsset :: "env \<Rightarrow> request \<Rightarrow> request" where
  "handleEvent_mapRequestToAsset env req =
     (let req = mapRequestToAsset env req
      in if endsWith (href (url req)) ''/index.html''
         then new_Request (root_url (origin (url req)) ''/index.html'') req
         else req)"

text \<open>Lines 50 to 79: the options of the first lookup. \<open>cacheControl\<close> is set under the
  debug flag only.\<close>

definition handleEvent_options :: "bool \<Rightarrow> env \<Rightarrow> options" where
  "handleEvent_options debug env =
     \<lparr>options_mapRequestToAsset = handleEvent_mapRequestToAsset env,
      options_cacheControl = (if debug then Some \<lparr>bypassCache = True\<rparr> else None)\<rparr>"

text \<open>Lines 87 to 89: the options of the lookup of the not-found page.\<close>

definition notFound_options :: options where
  "notFound_options =
     \<lparr>options_mapRequestToAsset = (\<lambda>req. new_Request (root_url (origin (url req)) ''/404.html'') req),
      options_cacheControl = None\<rparr>"

text \<open>
  Lines 48 to 97, with the flag \<open>DEBUG\<close> as a parameter. The result is the response
  together with the options of the calls made to \<open>getAssetFromKV\<close>, in order. The \<open>e\<close> of
  line 95 is the error of the first lookup: the inner \<open>catch (e) {}\<close> binds its own.
\<close>

definition handleEvent_dbg :: "bool \<Rightarrow> env \<Rightarrow> event \<Rightarrow> options list \<times> response" where
  "handleEvent_dbg debug env event =
     (let requestURL = href (url (request event));
          options = handleEvent_options debug env
      in case getAssetFromKV env event options of
           Inr response \<Rightarrow> ([options], addCustomHeaders requestURL response)
         | Inl e \<Rightarrow>
             (if \<not> debug then
                (case getAssetFromKV env event notFound_options of
                   Inr notFoundResponse \<Rightarrow>
                     ([options, notFound_options],
                      new_Response_stream (body notFoundResponse)
                        ((own_enumerable env notFoundResponse)\<lparr>init_status := Some 404\<rparr>))
                 | Inl e' \<Rightarrow>
                     ([options, notFound_options], new_Response_text (error_text e) 500))
              else ([options], new_Response_text (error_text e) 500)))"

text \<open>
  Lines 12 to 25, with the flag as a parameter: the response handed to
  \<open>event.respondWith\<close>. \<open>handleEvent\<close> is an async function and does not throw into the
  \<open>try\<close> block, so an exception caught there comes from the platform; \<open>thrown\<close> is that
  exception, if there is one.
\<close>

definition fetch_listener_dbg :: "bool \<Rightarrow> env \<Rightarrow> event \<Rightarrow> js_error option \<Rightarrow> response" where
  "fetch_listener_dbg debug env event thrown =
     (case thrown of
        None \<Rightarrow> snd (handleEvent_dbg debug env event)
      | Some e \<Rightarrow>
          (if debug then new_Response_text (error_text e) 500
           else new_Response_text ''Internal Error'' 500))"

text \<open>The program as shipped.\<close>

definition handleEvent :: "env \<Rightarrow> event \<Rightarrow> options list \<times> response" where
  "handleEvent = handleEvent_dbg DEBUG"

definition fetch_listener :: "env \<Rightarrow> event \<Rightarrow> js_error option \<Rightarrow> response" where
  "fetch_listener = fetch_listener_dbg DEBUG"

section \<open>Notions of the specification\<close>

text \<open>The segments of a path: the pieces between its slashes.\<close>

fun segments :: "string \<Rightarrow> string list" where
  "segments [] = [[]]"
| "segments (c # cs) =
     (if c = CHR ''/'' then [] # segments cs
      else (c # hd (segments cs)) # tl (segments cs))"

text \<open>The specification's classification of a request: its path has a segment equal to
  \<open>js\<close>, \<open>css\<close> or \<open>img\<close>.\<close>

definition spec_asset_path :: "string \<Rightarrow> bool" where
  "spec_asset_path path =
     (''js'' \<in> set (segments path) \<or> ''css'' \<in> set (segments path) \<or> ''img'' \<in> set (segments path))"

text \<open>What the regular expression of line 28 finds in a string: \<open>/js/\<close>, \<open>/css/\<close> or
  \<open>/img/\<close> with a character other than white space on each side.\<close>

definition between_slashes :: "string \<Rightarrow> bool" where
  "between_slashes s \<longleftrightarrow>
     (\<exists>a c seg d b. s = a @ [c] @ ''/'' @ seg @ ''/'' @ [d] @ b \<and>
        \<not> is_space c \<and> \<not> is_space d \<and> seg \<in> {''js'', ''css'', ''img''})"

section \<open>An example environment\<close>

text \<open>
  A store over a table of assets keyed by path, with a default mapper that completes a
  directory path with \<open>index.html\<close>, on a platform where a response has no own
  enumerable properties. The examples below run the worker in it.
\<close>

definition example_assets :: "(string \<times> string) list" where
  "example_assets =
     [(''/index.html'', ''<h1>home</h1>''),
      (''/404.html'', ''<h1>not found</h1>''),
      (''/js/app.js'', ''run()'')]"

definition example_getAssetFromKV ::
  "(string \<times> string) list \<Rightarrow> event \<Rightarrow> options \<Rightarrow> js_error + response" where
  "example_getAssetFromKV assets ev opts =
     (let key = pathname (url (options_mapRequestToAsset opts (request ev)))
      in case map_of assets key of
           Some content \<Rightarrow> Inr \<lparr>status = 200, headers = [(''ETag'', key)], body = content\<rparr>
         | None \<Rightarrow> Inl \<lparr>message = Some (''could not find '' @ key), toString = ''NotFoundError''\<rparr>)"

definition example_mapRequestToAsset :: "request \<Rightarrow> request" where
  "example_mapRequestToAsset req =
     (if endsWith (pathname (url req)) ''/''
      then req\<lparr>url := (url req)\<lparr>pathname := pathname (url req) @ ''index.html''\<rparr>\<rparr>
      else req)"

definition example_env :: "(string \<times> string) list \<Rightarrow> env" where
  "example_env assets =
     \<lparr>getAssetFromKV = example_getAssetFromKV assets,
      mapRequestToAsset = example_mapRequestToAsset,
      own_enumerable = (\<lambda>r. \<lparr>init_status = None, init_headers = None\<rparr>)\<rparr>"

definition GET :: "string \<Rightarrow> string \<Rightarrow> event" where
  "GET path query =
     \<lparr>request = \<lparr>url = \<lparr>origin = ''https://example.com'', pathname = path, search = query, hash = []\<rparr>,
                  req_method = ''GET'', req_headers = []\<rparr>\<rparr>"

section \<open>The matcher finds what the pattern means\<close>

lemma accepts_empty_lang: "accepts_empty r \<longleftrightarrow> [] \<in> lang r"
  by (induction r) (auto intro: repeats.none)

lemma repeats_head:
  assumes "x \<in> repeats A" and "x = c # w"
  shows "\<exists>u v. w = u @ v \<and> c # u \<in> A \<and> v \<in> repeats A"
  using assms
proof (induction arbitrary: w rule: repeats.induct)
  case none
  then show ?case by simp
next
  case (more u v)
  show ?case
  proof (cases u)
    case Nil
    with more show ?thesis by simp
  next
    case (Cons d u')
    with more.prems have "d = c" and "w = u' @ v" by simp_all
    with Cons more.hyps show ?thesis by blast
  qed
qed

lemma repeats_cons:
  "c # w \<in> repeats A \<longleftrightarrow> (\<exists>u v. w = u @ v \<and> c # u \<in> A \<and> v \<in> repeats A)"
proof
  assume "c # w \<in> repeats A"
  then show "\<exists>u v. w = u @ v \<and> c # u \<in> A \<and> v \<in> repeats A"
    by (rule repeats_head) simp
next
  assume "\<exists>u v. w = u @ v \<and> c # u \<in> A \<and> v \<in> repeats A"
  then obtain u v where "w = u @ v" "c # u \<in> A" "v \<in> repeats A" by blast
  then show "c # w \<in> repeats A"
    using repeats.more [of "c # u" A v] by simp
qed

lemma cons_in_conc:
  "(\<exists>u v. c # w = u @ v \<and> u \<in> A \<and> v \<in> B) \<longleftrightarrow>
   ([] \<in> A \<and> c # w \<in> B) \<or> (\<exists>u v. w = u @ v \<and> c # u \<in> A \<and> v \<in> B)"
  by (auto simp: Cons_eq_append_conv)

lemma after_lang: "w \<in> lang (after c r) \<longleftrightarrow> c # w \<in> lang r"
proof (induction r arbitrary: w)
  case (Then r s)
  then show ?case by (auto simp: cons_in_conc accepts_empty_lang)
next
  case (Many r)
  then show ?case by (auto simp: repeats_cons)
qed auto

lemma prefix_match_lang: "prefix_match r s \<longleftrightarrow> (\<exists>u v. s = u @ v \<and> u \<in> lang r)"
proof (induction s arbitrary: r)
  case Nil
  then show ?case by (simp add: accepts_empty_lang)
next
  case (Cons c cs)
  show ?case
  proof
    assume "prefix_match r (c # cs)"
    then consider "[] \<in> lang r" | "prefix_match (after c r) cs"
      by (auto simp: accepts_empty_lang)
    then show "\<exists>u v. c # cs = u @ v \<and> u \<in> lang r"
    proof cases
      case 1
      then show ?thesis by (metis append_Nil)
    next
      case 2
      then obtain u v where "cs = u @ v" "u \<in> lang (after c r)" using Cons.IH by blast
      then have "c # cs = (c # u) @ v" "c # u \<in> lang r" by (simp_all add: after_lang)
      then show ?thesis by blast
    qed
  next
    assume "\<exists>u v. c # cs = u @ v \<and> u \<in> lang r"
    then obtain u v where uv: "c # cs = u @ v" "u \<in> lang r" by blast
    show "prefix_match r (c # cs)"
    proof (cases u)
      case Nil
      with uv have "[] \<in> lang r" by simp
      then show ?thesis by (simp add: accepts_empty_lang)
    next
      case (Cons d u')
      with uv have "cs = u' @ v" "u' \<in> lang (after c r)" by (simp_all add: after_lang)
      then have "prefix_match (after c r) cs" using Cons.IH by blast
      then show ?thesis by simp
    qed
  qed
qed

lemma regex_test_lang: "regex_test r s \<longleftrightarrow> (\<exists>a u b. s = a @ u @ b \<and> u \<in> lang r)"
proof (induction s)
  case Nil
  then show ?case by (simp add: accepts_empty_lang)
next
  case (Cons c cs)
  show ?case
  proof
    assume "regex_test r (c # cs)"
    then consider "prefix_match r (c # cs)" | "regex_test r cs" by auto
    then show "\<exists>a u b. c # cs = a @ u @ b \<and> u \<in> lang r"
    proof cases
      case 1
      then obtain u v where "c # cs = u @ v" "u \<in> lang r"
        unfolding prefix_match_lang by blast
      then have "c # cs = [] @ u @ v" by simp
      with \<open>u \<in> lang r\<close> show ?thesis by blast
    next
      case 2
      then obtain a u b where "cs = a @ u @ b" "u \<in> lang r" using Cons.IH by blast
      then have "c # cs = (c # a) @ u @ b" by simp
      with \<open>u \<in> lang r\<close> show ?thesis by blast
    qed
  next
    assume "\<exists>a u b. c # cs = a @ u @ b \<and> u \<in> lang r"
    then obtain a u b where aub: "c # cs = a @ u @ b" "u \<in> lang r" by blast
    show "regex_test r (c # cs)"
    proof (cases a)
      case Nil
      with aub have "prefix_match r (c # cs)" unfolding prefix_match_lang by auto
      then show ?thesis by simp
    next
      case (Cons d a')
      with aub have "cs = a' @ u @ b" by simp
      with aub(2) have "regex_test r cs" using Cons.IH by blast
      then show ?thesis by simp
    qed
  qed
qed

lemma repeats_NotSpace:
  "w \<in> repeats {[c] | c. \<not> is_space c} \<longleftrightarrow> (\<forall>c \<in> set w. \<not> is_space c)"
proof
  assume "w \<in> repeats {[c] | c. \<not> is_space c}"
  then show "\<forall>c \<in> set w. \<not> is_space c"
    by (induction rule: repeats.induct) auto
next
  assume "\<forall>c \<in> set w. \<not> is_space c"
  then show "w \<in> repeats {[c] | c. \<not> is_space c}"
  proof (induction w)
    case Nil
    show ?case by (rule repeats.none)
  next
    case (Cons c w)
    then have "[c] \<in> {[c] | c. \<not> is_space c}" "w \<in> repeats {[c] | c. \<not> is_space c}"
      by simp_all
    then have "[c] @ w \<in> repeats {[c] | c. \<not> is_space c}" by (rule repeats.more)
    then show ?case by simp
  qed
qed

lemma lang_OneOrMore_NotSpace:
  "w \<in> lang (OneOrMore NotSpace) \<longleftrightarrow> w \<noteq> [] \<and> (\<forall>c \<in> set w. \<not> is_space c)"
proof
  assume "w \<in> lang (OneOrMore NotSpace)"
  then obtain u v where "w = u @ v" "u \<in> {[c] | c. \<not> is_space c}"
    "v \<in> repeats {[c] | c. \<not> is_space c}"
    by (auto simp: OneOrMore_def)
  then show "w \<noteq> [] \<and> (\<forall>c \<in> set w. \<not> is_space c)"
    by (auto simp: repeats_NotSpace)
next
  assume w: "w \<noteq> [] \<and> (\<forall>c \<in> set w. \<not> is_space c)"
  then obtain c v where cv: "w = [c] @ v" by (cases w) auto
  with w have "[c] \<in> {[c] | c. \<not> is_space c}" "v \<in> repeats {[c] | c. \<not> is_space c}"
    by (simp_all add: repeats_NotSpace)
  then have "\<exists>u' v'. w = u' @ v' \<and> u' \<in> {[c] | c. \<not> is_space c} \<and>
      v' \<in> repeats {[c] | c. \<not> is_space c}"
    using cv by blast
  then show "w \<in> lang (OneOrMore NotSpace)"
    by (simp add: OneOrMore_def)
qed

lemma lang_word: "lang (word s) = {s}"
  by (induction s) auto

lemma lang_regex:
  "u \<in> lang regex \<longleftrightarrow>
     (\<exists>p seg q. u = p @ ''/'' @ seg @ ''/'' @ q \<and> seg \<in> {''js'', ''css'', ''img''} \<and>
        p \<in> lang (OneOrMore NotSpace) \<and> q \<in> lang (OneOrMore NotSpace))"
  unfolding regex_def by (simp add: lang_word del: word.simps) blast

text \<open>The test of line 32 in plain terms.\<close>

lemma regex_test_regex: "regex_test regex s \<longleftrightarrow> between_slashes s"
proof
  assume "regex_test regex s"
  then obtain a u b where s: "s = a @ u @ b" and "u \<in> lang regex"
    unfolding regex_test_lang by blast
  then obtain p seg q where u: "u = p @ ''/'' @ seg @ ''/'' @ q"
    and seg: "seg \<in> {''js'', ''css'', ''img''}"
    and p: "p \<noteq> []" "\<forall>c \<in> set p. \<not> is_space c"
    and q: "q \<noteq> []" "\<forall>c \<in> set q. \<not> is_space c"
    unfolding lang_regex lang_OneOrMore_NotSpace by blast
  from p obtain p' c where p': "p = p' @ [c]" "\<not> is_space c"
    by (cases p rule: rev_cases) auto
  from q obtain d q' where q': "q = d # q'" "\<not> is_space d"
    by (cases q) auto
  have "s = (a @ p') @ [c] @ ''/'' @ seg @ ''/'' @ [d] @ (q' @ b)"
    by (simp add: s u p' q')
  with seg p' q' show "between_slashes s"
    unfolding between_slashes_def by blast
next
  assume "between_slashes s"
  then obtain a c seg d b where s: "s = a @ [c] @ ''/'' @ seg @ ''/'' @ [d] @ b"
    and cd: "\<not> is_space c" "\<not> is_space d" and seg: "seg \<in> {''js'', ''css'', ''img''}"
    unfolding between_slashes_def by blast
  from cd have "[c] \<in> lang (OneOrMore NotSpace)" "[d] \<in> lang (OneOrMore NotSpace)"
    by (simp_all add: lang_OneOrMore_NotSpace)
  with seg have "[c] @ ''/'' @ seg @ ''/'' @ [d] \<in> lang regex"
    unfolding lang_regex by blast
  moreover have "s = a @ ([c] @ ''/'' @ seg @ ''/'' @ [d]) @ b"
    by (simp add: s)
  ultimately show "regex_test regex s"
    unfolding regex_test_lang by blast
qed

section \<open>The paths of \<open>handleEvent\<close>\<close>

lemma headers_addCustomHeaders:
  "headers (addCustomHeaders requestURL r) =
     headers r @
       [(''Cache-Control'',
          if regex_test regex requestURL then ''public, max-age=31536000, immutable''
          else ''must-revalidate''),
        (''X-Frame-Options'', ''DENY''),
        (''X-Content-Type-Options'', ''nosniff''),
        (''X-XSS-Protection'', ''1; mode=block''),
        (''Referrer-Policy'', ''no-referrer'')]"
  by (simp add: addCustomHeaders_def headers_append_def Let_def)

lemma status_addCustomHeaders: "status (addCustomHeaders requestURL r) = status r"
  by (simp add: addCustomHeaders_def Let_def)

lemma body_addCustomHeaders: "body (addCustomHeaders requestURL r) = body r"
  by (simp add: addCustomHeaders_def Let_def)

lemma handleEvent_served:
  assumes "getAssetFromKV env ev (handleEvent_options debug env) = Inr r"
  shows "handleEvent_dbg debug env ev =
    ([handleEvent_options debug env], addCustomHeaders (href (url (request ev))) r)"
  using assms by (simp add: handleEvent_dbg_def Let_def)

lemma handleEvent_not_found:
  assumes "getAssetFromKV env ev (handleEvent_options False env) = Inl e"
    and "getAssetFromKV env ev notFound_options = Inr nf"
  shows "handleEvent_dbg False env ev =
    ([handleEvent_options False env, notFound_options],
     new_Response_stream (body nf) ((own_enumerable env nf)\<lparr>init_status := Some 404\<rparr>))"
  using assms by (simp add: handleEvent_dbg_def Let_def)

lemma handleEvent_failed:
  assumes "getAssetFromKV env ev (handleEvent_options False env) = Inl e"
    and "getAssetFromKV env ev notFound_options = Inl e'"
  shows "handleEvent_dbg False env ev =
    ([handleEvent_options False env, notFound_options], new_Response_text (error_text e) 500)"
  using assms by (simp add: handleEvent_dbg_def Let_def)

lemma handleEvent_failed_debug:
  assumes "getAssetFromKV env ev (handleEvent_options True env) = Inl e"
  shows "handleEvent_dbg True env ev =
    ([handleEvent_options True env], new_Response_text (error_text e) 500)"
  using assms by (simp add: handleEvent_dbg_def Let_def)

lemma first_call:
  "\<exists>rest. fst (handleEvent_dbg debug env ev) = handleEvent_options debug env # rest"
  by (simp add: handleEvent_dbg_def Let_def split: sum.split)

lemma endsWith_iff: "endsWith s t \<longleftrightarrow> (\<exists>p. s = p @ t)"
proof
  assume "endsWith s t"
  then have "s = take (length s - length t) s @ t"
    unfolding endsWith_def by (metis append_take_drop_id)
  then show "\<exists>p. s = p @ t" ..
next
  assume "\<exists>p. s = p @ t"
  then show "endsWith s t" by (auto simp: endsWith_def)
qed

section \<open>The worker in the example environment\<close>

lemmas example_defs =
  example_env_def example_getAssetFromKV_def example_mapRequestToAsset_def example_assets_def
  GET_def handleEvent_options_def handleEvent_mapRequestToAsset_def notFound_options_def
  new_Request_def root_url_def endsWith_def href_def Let_def

lemma example_app_js:
  "getAssetFromKV (example_env example_assets) (GET ''/js/app.js'' [])
     (handleEvent_options debug (example_env example_assets)) =
   Inr \<lparr>status = 200, headers = [(''ETag'', ''/js/app.js'')], body = ''run()''\<rparr>"
  by (simp add: example_defs)

lemma example_js_dir:
  "getAssetFromKV (example_env example_assets) (GET ''/js/'' [])
     (handleEvent_options debug (example_env example_assets)) =
   Inr \<lparr>status = 200, headers = [(''ETag'', ''/index.html'')], body = ''<h1>home</h1>''\<rparr>"
  by (simp add: example_defs)

lemma example_query:
  "getAssetFromKV (example_env example_assets) (GET ''/'' ''?x=/js/x'')
     (handleEvent_options debug (example_env example_assets)) =
   Inr \<lparr>status = 200, headers = [(''ETag'', ''/index.html'')], body = ''<h1>home</h1>''\<rparr>"
  by (simp add: example_defs)

lemma example_missing:
  "getAssetFromKV (example_env assets) (GET ''/missing'' [])
     (handleEvent_options debug (example_env assets)) =
   (case map_of assets ''/missing'' of
      Some content \<Rightarrow> Inr \<lparr>status = 200, headers = [(''ETag'', ''/missing'')], body = content\<rparr>
    | None \<Rightarrow> Inl \<lparr>message = Some ''could not find /missing'', toString = ''NotFoundError''\<rparr>)"
  by (simp add: example_defs split: option.split)

lemma example_404_page:
  "getAssetFromKV (example_env example_assets) ev notFound_options =
   Inr \<lparr>status = 200, headers = [(''ETag'', ''/404.html'')], body = ''<h1>not found</h1>''\<rparr>"
  by (simp add: example_defs)

lemma example_no_404_page:
  "getAssetFromKV (example_env []) ev notFound_options =
   Inl \<lparr>message = Some ''could not find /404.html'', toString = ''NotFoundError''\<rparr>"
  by (simp add: example_defs)

lemma example_own_enumerable:
  "own_enumerable (example_env assets) r = \<lparr>init_status = None, init_headers = None\<rparr>"
  by (simp add: example_env_def)

lemma example_missing_absent:
  "getAssetFromKV (example_env []) (GET ''/missing'' []) (handleEvent_options debug (example_env [])) =
   Inl \<lparr>message = Some ''could not find /missing'', toString = ''NotFoundError''\<rparr>"
  by (simp add: example_missing)

lemma example_missing_absent':
  "getAssetFromKV (example_env example_assets) (GET ''/missing'' [])
     (handleEvent_options debug (example_env example_assets)) =
   Inl \<lparr>message = Some ''could not find /missing'', toString = ''NotFoundError''\<rparr>"
  by (simp add: example_missing example_assets_def)

lemma example_run_not_found:
  "snd (handleEvent_dbg False (example_env example_assets) (GET ''/missing'' [])) =
   \<lparr>status = 404, headers = [], body = ''<h1>not found</h1>''\<rparr>"
  by (simp add: handleEvent_not_found [OF example_missing_absent' example_404_page]
      new_Response_stream_def example_own_enumerable)

lemma example_run_failed:
  "snd (handleEvent_dbg False (example_env []) (GET ''/missing'' [])) =
   \<lparr>status = 500, headers = [(''Content-Type'', ''text/plain;charset=UTF-8'')],
    body = ''could not find /missing''\<rparr>"
  by (simp add: handleEvent_failed [OF example_missing_absent example_no_404_page]
      new_Response_text_def error_text_def)

lemma test_app_js: "regex_test regex (href (url (request (GET ''/js/app.js'' []))))"
  by (simp add: GET_def href_def regex_def OneOrMore_def is_space_def)

lemma test_js_dir: "\<not> regex_test regex (href (url (request (GET ''/js/'' []))))"
  by (simp add: GET_def href_def regex_def OneOrMore_def is_space_def)

lemma test_query: "regex_test regex (href (url (request (GET ''/'' ''?x=/js/x''))))"
  by (simp add: GET_def href_def regex_def OneOrMore_def is_space_def)

section \<open>Security headers\<close>

text \<open>
  C1, as claimed: every response of the handler, served asset, 404 fallback or 500
  error, carries the four security headers. This fails: only the response of a
  successful first lookup passes through \<open>addCustomHeaders\<close>. With a store that has the
  not-found page but not the asset, the answer is a 404 without any header; with an
  empty store it is a 500 whose only header is the content type.
\<close>

theorem fallback_and_error_lack_security_headers:
  "status (snd (handleEvent (example_env example_assets) (GET ''/missing'' []))) = 404 \<and>
   headers (snd (handleEvent (example_env example_assets) (GET ''/missing'' []))) = [] \<and>
   status (snd (handleEvent (example_env []) (GET ''/missing'' []))) = 500 \<and>
   (''X-Frame-Options'', ''DENY'')
     \<notin> set (headers (snd (handleEvent (example_env []) (GET ''/missing'' []))))"
  by (simp add: handleEvent_def DEBUG_def example_run_not_found example_run_failed)

text \<open>
  C1, amended: every response for which the first lookup succeeded carries the four
  security headers \<open>X-Frame-Options: DENY\<close>, \<open>X-Content-Type-Options: nosniff\<close>,
  \<open>X-XSS-Protection: 1; mode=block\<close> and \<open>Referrer-Policy: no-referrer\<close>, whatever the
  request and the debug flag.
\<close>

theorem served_asset_has_security_headers:
  assumes "getAssetFromKV env ev (handleEvent_options debug env) = Inr r"
  shows "(''X-Frame-Options'', ''DENY'') \<in> set (headers (snd (handleEvent_dbg debug env ev))) \<and>
    (''X-Content-Type-Options'', ''nosniff'') \<in> set (headers (snd (handleEvent_dbg debug env ev))) \<and>
    (''X-XSS-Protection'', ''1; mode=block'') \<in> set (headers (snd (handleEvent_dbg debug env ev))) \<and>
    (''Referrer-Policy'', ''no-referrer'') \<in> set (headers (snd (handleEvent_dbg debug env ev)))"
  by (simp add: handleEvent_served [OF assms] headers_addCustomHeaders)

theorem served_asset_has_security_headers_example:
  "getAssetFromKV (example_env example_assets) (GET ''/js/app.js'' [])
     (handleEvent_options DEBUG (example_env example_assets)) =
     Inr \<lparr>status = 200, headers = [(''ETag'', ''/js/app.js'')], body = ''run()''\<rparr> \<and>
   (''X-Frame-Options'', ''DENY'')
     \<in> set (headers (snd (handleEvent (example_env example_assets) (GET ''/js/app.js'' [])))) \<and>
   (''X-Content-Type-Options'', ''nosniff'')
     \<in> set (headers (snd (handleEvent (example_env example_assets) (GET ''/js/app.js'' [])))) \<and>
   (''X-XSS-Protection'', ''1; mode=block'')
     \<in> set (headers (snd (handleEvent (example_env example_assets) (GET ''/js/app.js'' [])))) \<and>
   (''Referrer-Policy'', ''no-referrer'')
     \<in> set (headers (snd (handleEvent (example_env example_assets) (GET ''/js/app.js'' []))))"
  using served_asset_has_security_headers [OF example_app_js [of DEBUG]]
  by (simp add: handleEvent_def example_app_js)

section \<open>Error bodies\<close>

text \<open>
  C2, as claimed: with debug disabled a 500 response has the body \<open>Internal Error\<close>, and
  the raw error message appears only with debug enabled. This fails: the 500 of line 95
  carries the message of the failed first lookup, and is reached with debug disabled
  when the lookup of the not-found page fails too.
\<close>

theorem production_500_shows_error_message:
  "status (fetch_listener (example_env []) (GET ''/missing'' []) None) = 500 \<and>
   body (fetch_listener (example_env []) (GET ''/missing'' []) None) = ''could not find /missing'' \<and>
   body (fetch_listener (example_env []) (GET ''/missing'' []) None) \<noteq> ''Internal Error''"
  by (simp add: fetch_listener_def fetch_listener_dbg_def DEBUG_def example_run_failed)

text \<open>
  C2, amended: when the listener catches an exception, its 500 response has the body
  \<open>Internal Error\<close> with debug disabled and the raw error text with debug enabled. The
  500 response that \<open>handleEvent\<close> builds after a failed first lookup has the message of
  that error (or its string form) as body, with debug disabled as with debug enabled.
\<close>

theorem error_body_of_500:
  "fetch_listener_dbg False env ev (Some e) = new_Response_text ''Internal Error'' 500 \<and>
   fetch_listener_dbg True env ev (Some e) = new_Response_text (error_text e) 500 \<and>
   (getAssetFromKV env ev (handleEvent_options debug env) = Inl e1 \<and>
    status (fetch_listener_dbg debug env ev None) = 500 \<longrightarrow>
      body (fetch_listener_dbg debug env ev None) = error_text e1)"
  by (auto simp: fetch_listener_dbg_def handleEvent_dbg_def Let_def new_Response_text_def
      new_Response_stream_def split: sum.splits)

theorem error_body_of_500_example:
  "getAssetFromKV (example_env []) (GET ''/missing'' []) (handleEvent_options False (example_env [])) =
     Inl \<lparr>message = Some ''could not find /missing'', toString = ''NotFoundError''\<rparr> \<and>
   status (fetch_listener_dbg False (example_env []) (GET ''/missing'' []) None) = 500 \<and>
   body (fetch_listener_dbg False (example_env []) (GET ''/missing'' []) None) =
     ''could not find /missing''"
proof -
  let ?e = "\<lparr>message = Some ''could not find /missing'', toString = ''NotFoundError''\<rparr>"
  have b: "getAssetFromKV (example_env []) (GET ''/missing'' [])
      (handleEvent_options False (example_env [])) = Inl ?e"
    by (rule example_missing_absent)
  have s: "status (fetch_listener_dbg False (example_env []) (GET ''/missing'' []) None) = 500"
    by (simp add: fetch_listener_dbg_def example_run_failed)
  from error_body_of_500 [of "example_env []" "GET ''/missing'' []" ?e False ?e] b s
  have "body (fetch_listener_dbg False (example_env []) (GET ''/missing'' []) None) = error_text ?e"
    by blast
  with b s show ?thesis by (simp add: error_text_def)
qed

section \<open>Cache classification\<close>

text \<open>
  C3, as claimed: a served request whose path has a segment equal to \<open>js\<close>, \<open>css\<close> or
  \<open>img\<close> gets \<open>Cache-Control: public, max-age=31536000, immutable\<close>, and every other
  path gets \<open>must-revalidate\<close>. This fails in both directions. The path \<open>/js/\<close> has the
  segment \<open>js\<close>, and the response is to be revalidated; the path \<open>/\<close> has no such segment,
  and with the query \<open>?x=/js/x\<close> the response is immutable.
\<close>

theorem cache_control_not_by_path_segment:
  "spec_asset_path (pathname (url (request (GET ''/js/'' [])))) \<and>
   headers (snd (handleEvent (example_env example_assets) (GET ''/js/'' []))) =
     [(''ETag'', ''/index.html''), (''Cache-Control'', ''must-revalidate''),
      (''X-Frame-Options'', ''DENY''), (''X-Content-Type-Options'', ''nosniff''),
      (''X-XSS-Protection'', ''1; mode=block''), (''Referrer-Policy'', ''no-referrer'')] \<and>
   \<not> spec_asset_path (pathname (url (request (GET ''/'' ''?x=/js/x'')))) \<and>
   headers (snd (handleEvent (example_env example_assets) (GET ''/'' ''?x=/js/x''))) =
     [(''ETag'', ''/index.html''), (''Cache-Control'', ''public, max-age=31536000, immutable''),
      (''X-Frame-Options'', ''DENY''), (''X-Content-Type-Options'', ''nosniff''),
      (''X-XSS-Protection'', ''1; mode=block''), (''Referrer-Policy'', ''no-referrer'')]"
proof -
  have "spec_asset_path (pathname (url (request (GET ''/js/'' []))))"
    by (simp add: spec_asset_path_def GET_def)
  moreover have "\<not> spec_asset_path (pathname (url (request (GET ''/'' ''?x=/js/x''))))"
    by (simp add: spec_asset_path_def GET_def)
  moreover have "headers (snd (handleEvent (example_env example_assets) (GET ''/js/'' []))) =
     [(''ETag'', ''/index.html''), (''Cache-Control'', ''must-revalidate''),
      (''X-Frame-Options'', ''DENY''), (''X-Content-Type-Options'', ''nosniff''),
      (''X-XSS-Protection'', ''1; mode=block''), (''Referrer-Policy'', ''no-referrer'')]"
    unfolding handleEvent_def
    by (simp add: handleEvent_served [OF example_js_dir] headers_addCustomHeaders test_js_dir)
  moreover have
    "headers (snd (handleEvent (example_env example_assets) (GET ''/'' ''?x=/js/x''))) =
     [(''ETag'', ''/index.html''), (''Cache-Control'', ''public, max-age=31536000, immutable''),
      (''X-Frame-Options'', ''DENY''), (''X-Content-Type-Options'', ''nosniff''),
      (''X-XSS-Protection'', ''1; mode=block''), (''Referrer-Policy'', ''no-referrer'')]"
    unfolding handleEvent_def
    by (simp add: handleEvent_served [OF example_query] headers_addCustomHeaders test_query)
  ultimately show ?thesis by blast
qed

text \<open>
  C3, amended: to the headers of every served response the handler appends one
  \<open>Cache-Control\<close> value. It is \<open>public, max-age=31536000, immutable\<close> when the string of
  the request URL (origin, path, query and fragment together) contains \<open>/js/\<close>, \<open>/css/\<close>
  or \<open>/img/\<close> with a character other than white space right before and right after it,
  and \<open>must-revalidate\<close> otherwise.
\<close>

theorem cache_control_by_url_string:
  assumes "getAssetFromKV env ev (handleEvent_options debug env) = Inr r"
  shows "headers (snd (handleEvent_dbg debug env ev)) =
    headers r @
      [(''Cache-Control'',
         if between_slashes (href (url (request ev)))
         then ''public, max-age=31536000, immutable'' else ''must-revalidate''),
       (''X-Frame-Options'', ''DENY''),
       (''X-Content-Type-Options'', ''nosniff''),
       (''X-XSS-Protection'', ''1; mode=block''),
       (''Referrer-Policy'', ''no-referrer'')]"
  by (simp add: handleEvent_served [OF assms] headers_addCustomHeaders regex_test_regex)

theorem cache_control_by_url_string_example:
  "getAssetFromKV (example_env example_assets) (GET ''/js/app.js'' [])
     (handleEvent_options False (example_env example_assets)) =
     Inr \<lparr>status = 200, headers = [(''ETag'', ''/js/app.js'')], body = ''run()''\<rparr> \<and>
   between_slashes ''https://example.com/js/app.js'' \<and>
   headers (snd (handleEvent_dbg False (example_env example_assets) (GET ''/js/app.js'' []))) =
     [(''ETag'', ''/js/app.js''), (''Cache-Control'', ''public, max-age=31536000, immutable''),
      (''X-Frame-Options'', ''DENY''), (''X-Content-Type-Options'', ''nosniff''),
      (''X-XSS-Protection'', ''1; mode=block''), (''Referrer-Policy'', ''no-referrer'')]"
proof -
  have h: "href (url (request (GET ''/js/app.js'' []))) = ''https://example.com/js/app.js''"
    by (simp add: GET_def href_def)
  have b: "between_slashes ''https://example.com/js/app.js''"
    using test_app_js unfolding regex_test_regex h .
  from cache_control_by_url_string [OF example_app_js [of False]] b
  show ?thesis by (simp add: h example_app_js)
qed

text \<open>
  C9: the class is decided by the test of the regular expression of line 28 on the
  string of the whole URL, not on the path. A request whose path has no \<open>js\<close>, \<open>css\<close> or
  \<open>img\<close> segment and whose query contains \<open>/js/x\<close> gets the immutable header; a request
  whose path ends in \<open>/js/\<close> with nothing after the slash does not.
\<close>

theorem cache_class_tests_whole_url:
  "href (url (request ev)) =
     origin (url (request ev)) @ pathname (url (request ev)) @
     search (url (request ev)) @ hash (url (request ev)) \<and>
   (getAssetFromKV env ev (handleEvent_options debug env) = Inr r \<longrightarrow>
      (''Cache-Control'',
        if regex_test regex (href (url (request ev)))
        then ''public, max-age=31536000, immutable'' else ''must-revalidate'')
      \<in> set (headers (snd (handleEvent_dbg debug env ev)))) \<and>
   \<not> spec_asset_path (pathname (url (request (GET ''/'' ''?x=/js/x'')))) \<and>
   (''Cache-Control'', ''public, max-age=31536000, immutable'')
     \<in> set (headers (snd (handleEvent (example_env example_assets) (GET ''/'' ''?x=/js/x'')))) \<and>
   endsWith (pathname (url (request (GET ''/js/'' [])))) ''/js/'' \<and>
   (''Cache-Control'', ''public, max-age=31536000, immutable'')
     \<notin> set (headers (snd (handleEvent (example_env example_assets) (GET ''/js/'' []))))"
proof -
  have "getAssetFromKV env ev (handleEvent_options debug env) = Inr r \<longrightarrow>
      (''Cache-Control'',
        if regex_test regex (href (url (request ev)))
        then ''public, max-age=31536000, immutable'' else ''must-revalidate'')
      \<in> set (headers (snd (handleEvent_dbg debug env ev)))"
    by (simp add: handleEvent_served headers_addCustomHeaders)
  moreover have "\<not> spec_asset_path (pathname (url (request (GET ''/'' ''?x=/js/x''))))"
    by (simp add: spec_asset_path_def GET_def)
  moreover have "endsWith (pathname (url (request (GET ''/js/'' [])))) ''/js/''"
    by (simp add: endsWith_def GET_def)
  moreover have "(''Cache-Control'', ''public, max-age=31536000, immutable'')
     \<in> set (headers (snd (handleEvent (example_env example_assets) (GET ''/'' ''?x=/js/x''))))"
    unfolding handleEvent_def
    by (simp add: handleEvent_served [OF example_query] headers_addCustomHeaders test_query)
  moreover have "(''Cache-Control'', ''public, max-age=31536000, immutable'')
     \<notin> set (headers (snd (handleEvent (example_env example_assets) (GET ''/js/'' []))))"
    unfolding handleEvent_def
    by (simp add: handleEvent_served [OF example_js_dir] headers_addCustomHeaders test_js_dir)
  ultimately show ?thesis by (simp add: href_def)
qed

theorem cache_class_tests_whole_url_example:
  "getAssetFromKV (example_env example_assets) (GET ''/'' ''?x=/js/x'')
     (handleEvent_options False (example_env example_assets)) =
     Inr \<lparr>status = 200, headers = [(''ETag'', ''/index.html'')], body = ''<h1>home</h1>''\<rparr> \<and>
   href (url (request (GET ''/'' ''?x=/js/x''))) = ''https://example.com/?x=/js/x'' \<and>
   regex_test regex (href (url (request (GET ''/'' ''?x=/js/x'')))) \<and>
   (''Cache-Control'', ''public, max-age=31536000, immutable'')
     \<in> set (headers (snd (handleEvent_dbg False (example_env example_assets)
          (GET ''/'' ''?x=/js/x''))))"
proof -
  have h: "href (url (request (GET ''/'' ''?x=/js/x''))) = ''https://example.com/?x=/js/x''"
    by (simp add: GET_def href_def)
  from cache_class_tests_whole_url [of "GET ''/'' ''?x=/js/x''" "example_env example_assets" False
      "\<lparr>status = 200, headers = [(''ETag'', ''/index.html'')], body = ''<h1>home</h1>''\<rparr>"]
    example_query [of False]
  have "(''Cache-Control'',
        if regex_test regex (href (url (request (GET ''/'' ''?x=/js/x''))))
        then ''public, max-age=31536000, immutable'' else ''must-revalidate'')
      \<in> set (headers (snd (handleEvent_dbg False (example_env example_assets)
          (GET ''/'' ''?x=/js/x''))))"
    by blast
  then have "(''Cache-Control'', ''public, max-age=31536000, immutable'')
      \<in> set (headers (snd (handleEvent_dbg False (example_env example_assets)
          (GET ''/'' ''?x=/js/x''))))"
    by (simp only: test_query if_True)
  with h test_query example_query [of False] show ?thesis by blast
qed

section \<open>The fallback chain\<close>

text \<open>
  C4: when the first lookup throws and debug is disabled, and the lookup of the
  not-found page succeeds, the response has status 404 and the body of that page. The
  second lookup maps every request to \<open>/404.html\<close> at the root of its origin, whatever
  its path, query and fragment.
\<close>

theorem not_found_page_is_served:
  assumes "getAssetFromKV env ev (handleEvent_options False env) = Inl e"
    and "getAssetFromKV env ev notFound_options = Inr nf"
  shows "status (snd (handleEvent_dbg False env ev)) = 404 \<and>
    body (snd (handleEvent_dbg False env ev)) = body nf \<and>
    fst (handleEvent_dbg False env ev) = [handleEvent_options False env, notFound_options] \<and>
    (\<forall>req. options_mapRequestToAsset notFound_options req =
       req\<lparr>url := \<lparr>origin = origin (url req), pathname = ''/404.html'', search = [], hash = []\<rparr>\<rparr>)"
  by (simp add: handleEvent_not_found [OF assms] new_Response_stream_def notFound_options_def
      new_Request_def root_url_def)

theorem not_found_page_is_served_example:
  "getAssetFromKV (example_env example_assets) (GET ''/missing'' [])
     (handleEvent_options False (example_env example_assets)) =
     Inl \<lparr>message = Some ''could not find /missing'', toString = ''NotFoundError''\<rparr> \<and>
   getAssetFromKV (example_env example_assets) (GET ''/missing'' []) notFound_options =
     Inr \<lparr>status = 200, headers = [(''ETag'', ''/404.html'')], body = ''<h1>not found</h1>''\<rparr> \<and>
   status (snd (handleEvent_dbg False (example_env example_assets) (GET ''/missing'' []))) = 404 \<and>
   body (snd (handleEvent_dbg False (example_env example_assets) (GET ''/missing'' []))) =
     ''<h1>not found</h1>''"
  using not_found_page_is_served [OF example_missing_absent' [of False] example_404_page]
  by (simp add: example_missing_absent' example_404_page)

text \<open>
  C5: when the first lookup throws and the lookup of the not-found page throws too, the
  response has status 500. The second error goes nowhere: the body is the text of the
  first one, and \<open>handleEvent\<close> returns a response and throws nothing.
\<close>

theorem both_lookups_failing_give_500:
  assumes "getAssetFromKV env ev (handleEvent_options debug env) = Inl e"
    and "getAssetFromKV env ev notFound_options = Inl e'"
  shows "status (snd (handleEvent_dbg debug env ev)) = 500 \<and>
    body (snd (handleEvent_dbg debug env ev)) = error_text e \<and>
    fetch_listener_dbg debug env ev None = new_Response_text (error_text e) 500"
  using assms
  by (simp add: fetch_listener_dbg_def handleEvent_dbg_def Let_def new_Response_text_def)

theorem both_lookups_failing_give_500_example:
  "getAssetFromKV (example_env []) (GET ''/missing'' []) (handleEvent_options DEBUG (example_env [])) =
     Inl \<lparr>message = Some ''could not find /missing'', toString = ''NotFoundError''\<rparr> \<and>
   getAssetFromKV (example_env []) (GET ''/missing'' []) notFound_options =
     Inl \<lparr>message = Some ''could not find /404.html'', toString = ''NotFoundError''\<rparr> \<and>
   status (snd (handleEvent (example_env []) (GET ''/missing'' []))) = 500 \<and>
   body (snd (handleEvent (example_env []) (GET ''/missing'' []))) = ''could not find /missing''"
  using both_lookups_failing_give_500 [OF example_missing_absent [of DEBUG] example_no_404_page]
  by (simp add: example_missing_absent example_no_404_page handleEvent_def error_text_def)

section \<open>The mapping of requests to assets\<close>

text \<open>
  C6: the mapping passed to the first lookup applies the default mapper of the store
  first. If the URL string of the result ends in \<open>/index.html\<close>, it returns that request
  with the URL replaced by \<open>/index.html\<close> at the root of its origin; otherwise it returns
  the result of the default mapper unchanged.
\<close>

theorem index_html_is_mapped_to_root:
  "(\<exists>rest. fst (handleEvent_dbg debug env ev) = handleEvent_options debug env # rest) \<and>
   options_mapRequestToAsset (handleEvent_options debug env) req =
     (if \<exists>p. href (url (mapRequestToAsset env req)) = p @ ''/index.html''
      then (mapRequestToAsset env req)
        \<lparr>url := \<lparr>origin = origin (url (mapRequestToAsset env req)),
                 pathname = ''/index.html'', search = [], hash = []\<rparr>\<rparr>
      else mapRequestToAsset env req)"
proof -
  have "options_mapRequestToAsset (handleEvent_options debug env) req =
     (if \<exists>p. href (url (mapRequestToAsset env req)) = p @ ''/index.html''
      then (mapRequestToAsset env req)
        \<lparr>url := \<lparr>origin = origin (url (mapRequestToAsset env req)),
                 pathname = ''/index.html'', search = [], hash = []\<rparr>\<rparr>
      else mapRequestToAsset env req)"
    by (simp add: handleEvent_options_def handleEvent_mapRequestToAsset_def Let_def
        endsWith_iff new_Request_def root_url_def)
  with first_call [of debug env ev] show ?thesis by blast
qed

text \<open>A request for a directory, which the default mapper of the example completes with
  \<open>index.html\<close>, is looked up as \<open>/index.html\<close> at the root.\<close>

lemma example_directory_request:
  "options_mapRequestToAsset (handleEvent_options debug (example_env assets))
     (request (GET ''/some/dir/'' [])) =
   request (GET ''/index.html'' []) \<and>
   options_mapRequestToAsset (handleEvent_options debug (example_env assets))
     (request (GET ''/js/app.js'' [])) =
   request (GET ''/js/app.js'' [])"
  by (simp add: example_defs)

section \<open>One response, of a known status\<close>

text \<open>
  C7: the handler is a function from the request (and what the platform and the store do)
  to one response, and the status of that response is the status of the response of a
  successful first lookup, or 404, or 500.
\<close>

theorem one_response_of_known_status:
  "(\<exists>r. getAssetFromKV env ev (handleEvent_options debug env) = Inr r \<and>
        status (fetch_listener_dbg debug env ev thrown) = status r) \<or>
   status (fetch_listener_dbg debug env ev thrown) = 404 \<or>
   status (fetch_listener_dbg debug env ev thrown) = 500"
  by (auto simp: fetch_listener_dbg_def handleEvent_dbg_def Let_def status_addCustomHeaders
      new_Response_text_def new_Response_stream_def split: sum.splits option.splits)

text \<open>
  C8: the response depends on the store through the results of the two lookups only.
  Two runs of the handler on the same request, against stores that answer these lookups
  alike, give responses of the same status and the same headers (and make the same
  calls).
\<close>

theorem same_lookups_same_response:
  assumes "g1 ev (handleEvent_options debug env) = g2 ev (handleEvent_options debug env)"
    and "g1 ev notFound_options = g2 ev notFound_options"
  shows "status (snd (handleEvent_dbg debug (env\<lparr>getAssetFromKV := g1\<rparr>) ev)) =
      status (snd (handleEvent_dbg debug (env\<lparr>getAssetFromKV := g2\<rparr>) ev)) \<and>
    headers (snd (handleEvent_dbg debug (env\<lparr>getAssetFromKV := g1\<rparr>) ev)) =
      headers (snd (handleEvent_dbg debug (env\<lparr>getAssetFromKV := g2\<rparr>) ev)) \<and>
    handleEvent_dbg debug (env\<lparr>getAssetFromKV := g1\<rparr>) ev =
      handleEvent_dbg debug (env\<lparr>getAssetFromKV := g2\<rparr>) ev"
proof -
  have o: "handleEvent_options debug (env\<lparr>getAssetFromKV := g\<rparr>) = handleEvent_options debug env"
    for g
    by (simp add: handleEvent_options_def handleEvent_mapRequestToAsset_def fun_eq_iff)
  have "handleEvent_dbg debug (env\<lparr>getAssetFromKV := g1\<rparr>) ev =
      handleEvent_dbg debug (env\<lparr>getAssetFromKV := g2\<rparr>) ev"
    using assms by (simp add: handleEvent_dbg_def o Let_def split: sum.split)
  then show ?thesis by simp
qed

theorem same_lookups_same_response_example:
  "example_getAssetFromKV example_assets (GET ''/missing'' [])
     (handleEvent_options False (example_env [])) =
   example_getAssetFromKV [(''/404.html'', ''<h1>not found</h1>'')] (GET ''/missing'' [])
     (handleEvent_options False (example_env [])) \<and>
   example_getAssetFromKV example_assets (GET ''/missing'' []) notFound_options =
   example_getAssetFromKV [(''/404.html'', ''<h1>not found</h1>'')] (GET ''/missing'' [])
     notFound_options \<and>
   handleEvent_dbg False (example_env example_assets) (GET ''/missing'' []) =
   handleEvent_dbg False (example_env [(''/404.html'', ''<h1>not found</h1>'')])
     (GET ''/missing'' [])"
proof -
  let ?small = "[(''/404.html'', ''<h1>not found</h1>'')]"
  have a: "example_getAssetFromKV example_assets (GET ''/missing'' [])
      (handleEvent_options False (example_env [])) =
    example_getAssetFromKV ?small (GET ''/missing'' []) (handleEvent_options False (example_env []))"
    by (simp add: example_defs)
  have b: "example_getAssetFromKV example_assets (GET ''/missing'' []) notFound_options =
    example_getAssetFromKV ?small (GET ''/missing'' []) notFound_options"
    by (simp add: example_defs)
  have e: "(example_env [])\<lparr>getAssetFromKV := example_getAssetFromKV assets\<rparr> = example_env assets"
    for assets
    by (simp add: example_env_def)
  from same_lookups_same_response [of "example_getAssetFromKV example_assets" "GET ''/missing'' []"
      False "example_env []" "example_getAssetFromKV ?small", OF a b] a b
  show ?thesis
    by (simp only: e)
qed

section \<open>The debug flag\<close>

text \<open>
  C10: the flag is the constant \<open>false\<close>. So the first lookup is made without
  \<open>cacheControl\<close>, every failure of the first lookup is followed by the lookup of the
  not-found page, and an exception caught by the listener is answered with
  \<open>Internal Error\<close>, never with its text: the behaviours under the flag cannot occur.
\<close>

theorem debug_behaviours_unreachable:
  "DEBUG = False \<and>
   (\<exists>rest. fst (handleEvent env ev) = handleEvent_options DEBUG env # rest) \<and>
   options_cacheControl (handleEvent_options DEBUG env) = None \<and>
   (getAssetFromKV env ev (handleEvent_options DEBUG env) = Inl e \<longrightarrow>
      fst (handleEvent env ev) = [handleEvent_options DEBUG env, notFound_options]) \<and>
   fetch_listener env ev (Some e') = new_Response_text ''Internal Error'' 500"
  by (auto simp: DEBUG_def handleEvent_def fetch_listener_def fetch_listener_dbg_def
      handleEvent_dbg_def handleEvent_options_def Let_def split: sum.splits)

theorem debug_behaviours_unreachable_example:
  "getAssetFromKV (example_env []) (GET ''/missing'' []) (handleEvent_options DEBUG (example_env [])) =
     Inl \<lparr>message = Some ''could not find /missing'', toString = ''NotFoundError''\<rparr> \<and>
   fst (handleEvent (example_env []) (GET ''/missing'' [])) =
     [handleEvent_options DEBUG (example_env []), notFound_options]"
  using debug_behaviours_unreachable [of "example_env []" "GET ''/missing'' []"
      "\<lparr>message = Some ''could not find /missing'', toString = ''NotFoundError''\<rparr>"]
    example_missing_absent [of DEBUG]
  by blast

end
